theory Spec2Isabelle
  imports Main "HOL-Library.Sublist" "HOL-Library.AList" "HOL-Library.Char_ord"
    "HOL-Library.List_Lexorder"
begin

section \<open>The operating system as the program sees it\<close>

text \<open>
  The watcher is a Go program (\<^verbatim>\<open>watch.go\<close> and two sibling copies of it) whose
  functions read and change the file system through \<^verbatim>\<open>os\<close>, \<^verbatim>\<open>io\<close>,
  \<^verbatim>\<open>bufio\<close> and \<^verbatim>\<open>path/filepath\<close>. The file system is a tree: a regular file
  holds its bytes (Go strings and files are byte sequences, and a \<^typ>\<open>char\<close> is a
  byte), a directory holds whether it can be listed and its entries in the order in which
  a listing returns them (sorted by name). There are no symbolic links, so
  \<^verbatim>\<open>Lstat\<close> and \<^verbatim>\<open>Stat\<close> agree.
\<close>

datatype node = RegFile string | Directory bool "(string \<times> node) list"

datatype errno = ENOENT | ENOTDIR | EISDIR | EEXIST | EACCES | ENOSPC

text \<open>
  Go's \<^verbatim>\<open>error\<close> values: an \<^verbatim>\<open>*os.PathError\<close> (operation, path, errno),
  \<^verbatim>\<open>filepath.SkipDir\<close> and \<^verbatim>\<open>os.ErrInvalid\<close>. A nil error is \<^const>\<open>None\<close>.
\<close>

datatype error = PathError string string errno | SkipDir | ErrInvalid

text \<open>A run-time panic of the Go program (it ends the process).\<close>

datatype panic = SliceBoundsOutOfRange | IndexOutOfRange

fun errnoText :: "errno \<Rightarrow> string" where
  "errnoText ENOENT = ''no such file or directory''"
| "errnoText ENOTDIR = ''not a directory''"
| "errnoText EISDIR = ''is a directory''"
| "errnoText EEXIST = ''file exists''"
| "errnoText EACCES = ''permission denied''"
| "errnoText ENOSPC = ''no space left on device''"

fun Error :: "error \<Rightarrow> string" where
  "Error (PathError opn path e) = opn @ '' '' @ path @ '': '' @ errnoText e"
| "Error SkipDir = ''skip this directory''"
| "Error ErrInvalid = ''invalid argument''"

fun IsDir_info :: "node \<Rightarrow> bool" where
  "IsDir_info (Directory l es) = True"
| "IsDir_info (RegFile b) = False"

subsection \<open>Paths\<close>

text \<open>
  \<^verbatim>\<open>os.IsPathSeparator\<close>: the slash, and on Windows also the backslash.
\<close>

definition IsPathSeparator :: "bool \<Rightarrow> char \<Rightarrow> bool" where
  "IsPathSeparator win c = (c = CHR ''/'' \<or> (win \<and> c = CHR 0x5C))"

fun splitOn :: "(char \<Rightarrow> bool) \<Rightarrow> string \<Rightarrow> string list" where
  "splitOn P [] = [[]]"
| "splitOn P (c # cs) =
     (if P c then [] # splitOn P cs
      else (case splitOn P cs of [] \<Rightarrow> [[c]] | x # xs \<Rightarrow> (c # x) # xs))"

text \<open>
  The elements a path walks through, from the root of the tree: empty elements (doubled
  or trailing separators) and \<^verbatim>\<open>.\<close> name the directory they are in and are left
  out; \<^verbatim>\<open>..\<close> stays in the list. A relative path starts at the root as well (the
  working directory is the root), and on Windows a volume such as \<^verbatim>\<open>C:\<close> is an
  entry of the root.
\<close>

definition components :: "bool \<Rightarrow> string \<Rightarrow> string list" where
  "components win p = filter (\<lambda>c. c \<noteq> [] \<and> c \<noteq> ''.'') (splitOn (IsPathSeparator win) p)"

text \<open>
  A path that ends in a separator or in the element \<^verbatim>\<open>.\<close> names a directory
  only: on a regular file it fails with \<^verbatim>\<open>ENOTDIR\<close>. (\<^const>\<open>splitOn\<close> gives
  at least one element, so there is a last one.)
\<close>

definition needsDir :: "bool \<Rightarrow> string \<Rightarrow> bool" where
  "needsDir win p =
     (case rev (splitOn (IsPathSeparator win) p) of
        [] \<Rightarrow> True
      | l # ls \<Rightarrow> l = [] \<or> l = ''.'')"

fun lookup :: "string list \<Rightarrow> node \<Rightarrow> errno + node" where
  "lookup [] t = Inr t"
| "lookup (c # cs) (RegFile b) = Inl ENOTDIR"
| "lookup (c # cs) (Directory l es) =
     (case map_of es c of None \<Rightarrow> Inl ENOENT | Some t \<Rightarrow> lookup cs t)"

text \<open>What a lookup found, for a function that also handles a missing node.\<close>

definition asOption :: "errno + node \<Rightarrow> node option" where
  "asOption r = (case r of Inl e \<Rightarrow> None | Inr n \<Rightarrow> Some n)"

text \<open>
  \<open>modify f cs t\<close> replaces the node that \<open>cs\<close> names in \<open>t\<close> by what \<open>f\<close> makes of
  it; \<open>f\<close> gets \<^const>\<open>None\<close> when only the last name is missing, and the new entry then
  goes to its place in the sorted listing.
\<close>

fun modify :: "(node option \<Rightarrow> errno + node) \<Rightarrow> string list \<Rightarrow> node \<Rightarrow> errno + node" where
  "modify f [] t = f (Some t)"
| "modify f (c # cs) (RegFile b) = Inl ENOTDIR"
| "modify f (c # cs) (Directory l es) =
     (case map_of es c of
        None \<Rightarrow>
          (if cs = [] then
             (case f None of Inl e \<Rightarrow> Inl e
              | Inr n \<Rightarrow> Inr (Directory l (insort_key fst (c, n) es)))
           else Inl ENOENT)
      | Some t \<Rightarrow>
          (case modify f cs t of Inl e \<Rightarrow> Inl e
           | Inr n \<Rightarrow> Inr (Directory l (AList.update c n es))))"

text \<open>
  \<^verbatim>\<open>os.MkdirAll\<close> on the names of a path: an existing directory is entered, a
  missing one is made (listable and empty), a regular file on the way is
  \<^verbatim>\<open>ENOTDIR\<close>.
\<close>

fun mkdirs :: "string list \<Rightarrow> node \<Rightarrow> errno + node" where
  "mkdirs cs (RegFile b) = Inl ENOTDIR"
| "mkdirs [] (Directory l es) = Inr (Directory l es)"
| "mkdirs (c # cs) (Directory l es) =
     (case map_of es c of
        None \<Rightarrow>
          (case mkdirs cs (Directory True []) of Inl e \<Rightarrow> Inl e
           | Inr n \<Rightarrow> Inr (Directory l (insort_key fst (c, n) es)))
      | Some t \<Rightarrow>
          (case mkdirs cs t of Inl e \<Rightarrow> Inl e
           | Inr n \<Rightarrow> Inr (Directory l (AList.update c n es))))"

text \<open>
  The place a path names: its elements are followed one by one from the root, each step
  is taken from an existing directory, and \<^verbatim>\<open>..\<close> steps back to the directory
  above (the root is above itself). The last element need not exist. \<open>acc\<close> is the
  place reached so far.
\<close>

fun canon :: "node \<Rightarrow> string list \<Rightarrow> string list \<Rightarrow> errno + string list" where
  "canon rt acc [] = Inr acc"
| "canon rt acc (c # cs) =
     (case lookup acc rt of
        Inl e \<Rightarrow> Inl e
      | Inr (RegFile b) \<Rightarrow> Inl ENOTDIR
      | Inr (Directory l es) \<Rightarrow> canon rt (if c = ''..'' then butlast acc else acc @ [c]) cs)"

definition place :: "bool \<Rightarrow> node \<Rightarrow> string \<Rightarrow> errno + string list" where
  "place win rt p = canon rt [] (components win p)"

text \<open>
  \<^verbatim>\<open>os.MkdirAll\<close> on the elements of a path: it makes the directories up to an
  element \<^verbatim>\<open>..\<close> before it steps back, and those up to the end of the path.
\<close>

fun mkdirsFrom :: "node \<Rightarrow> string list \<Rightarrow> string list \<Rightarrow> errno + node" where
  "mkdirsFrom rt acc [] = mkdirs acc rt"
| "mkdirsFrom rt acc (c # cs) =
     (if c = ''..'' then
        (case mkdirs acc rt of
           Inl e \<Rightarrow> Inl e
         | Inr rt1 \<Rightarrow> mkdirsFrom rt1 (butlast acc) cs)
      else mkdirsFrom rt (acc @ [c]) cs)"

subsection \<open>The state of the process and of the machine\<close>

text \<open>
  The package-level variables of the program (\<^verbatim>\<open>copyDir\<close>, \<^verbatim>\<open>sleep\<close>,
  \<^verbatim>\<open>paths\<close>, \<^verbatim>\<open>err\<close>, \<^verbatim>\<open>opts.NoRecurse\<close>), the two output streams, the
  functions handed to \<^verbatim>\<open>time.AfterFunc\<close> that have not run yet (delay in seconds,
  captured \<^verbatim>\<open>filePath\<close>, captured \<^verbatim>\<open>newPath\<close>), and the machine: whether
  \<^verbatim>\<open>runtime.GOOS\<close> is \<^verbatim>\<open>windows\<close>, the file tree, the number of bytes the device
  takes in one file before a write fails with \<^verbatim>\<open>ENOSPC\<close>, and whether
  \<^verbatim>\<open>*os.File\<close> implements \<^verbatim>\<open>io.ReaderFrom\<close> (it does from Go 1.15 on; a
  \<^verbatim>\<open>bufio.Writer\<close> with an empty buffer then hands \<^verbatim>\<open>ReadFrom\<close> to the file).
\<close>

record state =
  windows :: bool
  root :: node
  space :: nat
  fileReadFrom :: bool
  copyDir :: string
  sleep :: nat
  NoRecurse :: bool
  paths :: "string list"
  err :: "error option"
  stdout :: "string list"
  stderr :: "string list"
  timers :: "(nat \<times> string \<times> string) list"

definition Println :: "string list \<Rightarrow> string" where
  "Println args = (case args of [] \<Rightarrow> [] | a # as \<Rightarrow> foldl (\<lambda>l x. l @ '' '' @ x) a as)"

definition toStdout :: "string \<Rightarrow> state \<Rightarrow> state" where
  "toStdout l s = s\<lparr>stdout := stdout s @ [l]\<rparr>"

definition toStderr :: "string \<Rightarrow> state \<Rightarrow> state" where
  "toStderr l s = s\<lparr>stderr := stderr s @ [l]\<rparr>"

subsection \<open>The calls into \<^verbatim>\<open>os\<close>\<close>

text \<open>
  \<^verbatim>\<open>os.Stat\<close>: the empty path names nothing, and a regular file is not found under
  a name that asks for a directory.
\<close>

definition os_Stat :: "string \<Rightarrow> state \<Rightarrow> error + node" where
  "os_Stat name s =
     (if name = [] then Inl (PathError ''stat'' name ENOENT)
      else (case place (windows s) (root s) name of
              Inl e \<Rightarrow> Inl (PathError ''stat'' name e)
            | Inr pl \<Rightarrow>
                (case lookup pl (root s) of
                   Inl e \<Rightarrow> Inl (PathError ''stat'' name e)
                 | Inr n \<Rightarrow>
                     (if needsDir (windows s) name \<and> \<not> IsDir_info n
                      then Inl (PathError ''stat'' name ENOTDIR)
                      else Inr n))))"

text \<open>
  \<^verbatim>\<open>os.MkdirAll(path, perm)\<close>: nil when the path is a directory already or has been
  made with its missing parents.
\<close>

definition os_MkdirAll :: "string \<Rightarrow> state \<Rightarrow> error option \<times> state" where
  "os_MkdirAll path s =
     (if path = [] then (Some (PathError ''mkdir'' path ENOENT), s)
      else (case mkdirsFrom (root s) [] (components (windows s) path) of
              Inl e \<Rightarrow> (Some (PathError ''mkdir'' path e), s)
            | Inr t \<Rightarrow> (None, s\<lparr>root := t\<rparr>)))"

text \<open>
  An open file is the name it was opened under and the place of its node in the tree.
  \<^verbatim>\<open>os.Open\<close> opens what exists, a directory too (reading it fails later).
\<close>

type_synonym handle = "string \<times> string list"

definition os_Open :: "string \<Rightarrow> state \<Rightarrow> error + handle" where
  "os_Open name s =
     (case os_Stat name s of
        Inl (PathError opn p e) \<Rightarrow> Inl (PathError ''open'' name e)
      | Inl e \<Rightarrow> Inl e
      | Inr n \<Rightarrow>
          (case place (windows s) (root s) name of
             Inl e \<Rightarrow> Inl (PathError ''open'' name e)
           | Inr pl \<Rightarrow> Inr (name, pl)))"

text \<open>
  \<^verbatim>\<open>os.OpenFile(name, O_WRONLY|O_CREATE [|O_TRUNC], 0666)\<close>: a missing file is made
  empty in an existing directory; an existing file keeps its bytes unless
  \<^verbatim>\<open>O_TRUNC\<close> is given; a directory cannot be opened for writing, and neither can
  a name that asks for a directory.
\<close>

fun openForWrite :: "bool \<Rightarrow> node option \<Rightarrow> errno + node" where
  "openForWrite trunc None = Inr (RegFile [])"
| "openForWrite trunc (Some (RegFile b)) = Inr (RegFile (if trunc then [] else b))"
| "openForWrite trunc (Some (Directory l es)) = Inl EISDIR"

definition os_OpenFile :: "string \<Rightarrow> bool \<Rightarrow> state \<Rightarrow> error + (handle \<times> state)" where
  "os_OpenFile name trunc s =
     (if name = [] then Inl (PathError ''open'' name ENOENT)
      else (case place (windows s) (root s) name of
              Inl e \<Rightarrow> Inl (PathError ''open'' name e)
            | Inr pl \<Rightarrow>
                (case modify (openForWrite trunc) pl (root s) of
                   Inl e \<Rightarrow> Inl (PathError ''open'' name e)
                 | Inr t \<Rightarrow>
                     (if needsDir (windows s) name then
                        Inl (PathError ''open'' name
                               (case lookup pl (root s) of
                                  Inr n \<Rightarrow> ENOTDIR
                                | Inl e \<Rightarrow> EISDIR))
                      else Inr ((name, pl), s\<lparr>root := t\<rparr>)))))"

text \<open>\<^verbatim>\<open>os.Create(name)\<close> is \<^verbatim>\<open>OpenFile(name, O_RDWR|O_CREATE|O_TRUNC, 0666)\<close>.\<close>

definition os_Create :: "string \<Rightarrow> state \<Rightarrow> error + (handle \<times> state)" where
  "os_Create name s = os_OpenFile name True s"

text \<open>
  Reading an open file to its end; a nil \<^verbatim>\<open>*os.File\<close> (\<^const>\<open>None\<close>) gives
  \<^verbatim>\<open>os.ErrInvalid\<close>.
\<close>

definition readAll :: "handle option \<Rightarrow> state \<Rightarrow> error + string" where
  "readAll f s =
     (case f of
        None \<Rightarrow> Inl ErrInvalid
      | Some (name, cs) \<Rightarrow>
          (case lookup cs (root s) of
             Inr (RegFile b) \<Rightarrow> Inr b
           | Inr (Directory l es) \<Rightarrow> Inl (PathError ''read'' name EISDIR)
           | Inl e \<Rightarrow> Inl (PathError ''read'' name e)))"

text \<open>
  Writing \<open>data\<close> to a file opened for writing, from offset 0: the bytes replace the
  first bytes of the file and what lies behind them stays. The bytes beyond
  \<^const>\<open>space\<close> are not written and the write fails.
\<close>

fun overwrite :: "string \<Rightarrow> node option \<Rightarrow> errno + node" where
  "overwrite data (Some (RegFile b)) = Inr (RegFile (data @ drop (length data) b))"
| "overwrite data (Some (Directory l es)) = Inl EISDIR"
| "overwrite data None = Inl ENOENT"

definition writeFile :: "handle \<Rightarrow> string \<Rightarrow> state \<Rightarrow> (nat \<times> error option) \<times> state" where
  "writeFile f data s =
     (let d = take (space s) data
      in (case modify (overwrite d) (snd f) (root s) of
            Inl e \<Rightarrow> ((0, Some (PathError ''write'' (fst f) e)), s)
          | Inr t \<Rightarrow>
              ((length d,
                if length data \<le> space s then None
                else Some (PathError ''write'' (fst f) ENOSPC)),
               s\<lparr>root := t\<rparr>)))"

text \<open>
  \<^verbatim>\<open>io.Copy(dst, src)\<close> between two files streams the source to its end into the
  destination and gives the number of bytes written and the first error.
\<close>

definition io_Copy :: "handle \<Rightarrow> handle option \<Rightarrow> state \<Rightarrow> (nat \<times> error option) \<times> state" where
  "io_Copy dst src s =
     (case readAll src s of
        Inl e \<Rightarrow> ((0, Some e), s)
      | Inr data \<Rightarrow> writeFile dst data s)"

text \<open>
  \<^verbatim>\<open>io.Copy(bufio.NewWriter(dst), bufio.NewReader(src))\<close> with no \<^verbatim>\<open>Flush\<close>
  afterwards. Where \<^verbatim>\<open>*os.File\<close> implements \<^verbatim>\<open>io.ReaderFrom\<close> the writer's
  buffer is empty and the copy goes to the file itself. Otherwise the writer fills its
  buffer of 4096 bytes, writes it out each time it is full, and keeps the rest: those
  bytes never reach the file, and the copy reports all bytes as written.
\<close>

definition bufio_Copy :: "handle \<Rightarrow> handle option \<Rightarrow> state \<Rightarrow> (nat \<times> error option) \<times> state" where
  "bufio_Copy dst src s =
     (if fileReadFrom s then io_Copy dst src s
      else (case readAll src s of
              Inl e \<Rightarrow> ((0, Some e), s)
            | Inr data \<Rightarrow>
                (case writeFile dst (take (4096 * (length data div 4096)) data) s of
                   ((n, Some e), s') \<Rightarrow> ((n, Some e), s')
                 | ((n, None), s') \<Rightarrow> ((length data, None), s'))))"

subsection \<open>The calls into \<^verbatim>\<open>strings\<close> and \<^verbatim>\<open>path/filepath\<close>\<close>

text \<open>
  The slice expression \<^verbatim>\<open>s[i:j]\<close> of a string panics unless
  \<^verbatim>\<open>i <= j <= len(s)\<close>.
\<close>

definition slice :: "string \<Rightarrow> nat \<Rightarrow> nat \<Rightarrow> panic + string" where
  "slice s i j =
     (if i \<le> j \<and> j \<le> length s then Inr (take (j - i) (drop i s))
      else Inl SliceBoundsOutOfRange)"

text \<open>
  \<^verbatim>\<open>strings.Replace(s, old, new, 1)\<close>: the first occurrence of \<open>old\<close> in \<open>s\<close>,
  searched from the left, is replaced by \<open>new\<close>; \<open>s\<close> is returned as it is when there
  is none.
\<close>

fun strings_Replace1 :: "string \<Rightarrow> string \<Rightarrow> string \<Rightarrow> string" where
  "strings_Replace1 [] old new = (if old = [] then new else [])"
| "strings_Replace1 (c # cs) old new =
     (if prefix old (c # cs) then new @ drop (length old) (c # cs)
      else c # strings_Replace1 cs old new)"

text \<open>
  \<^verbatim>\<open>filepath.VolumeName\<close>: a drive letter and a colon on Windows, nothing elsewhere.
  (Paths of the form \<^verbatim>\<open>\\host\share\<close> are not modelled.)
\<close>

definition Separator :: "bool \<Rightarrow> char" where
  "Separator win = (if win then CHR 0x5C else CHR ''/'')"

definition isLetter :: "char \<Rightarrow> bool" where
  "isLetter c = ((CHR ''a'' \<le> c \<and> c \<le> CHR ''z'') \<or> (CHR ''A'' \<le> c \<and> c \<le> CHR ''Z''))"

definition VolumeName :: "bool \<Rightarrow> string \<Rightarrow> string" where
  "VolumeName win path =
     (case path of
        c # d # rest \<Rightarrow> (if win \<and> d = CHR '':'' \<and> isLetter c then [c, d] else [])
      | _ \<Rightarrow> [])"

text \<open>
  \<^verbatim>\<open>filepath.Clean\<close>: separators are not repeated, the element \<^verbatim>\<open>.\<close> is
  dropped, an inner \<^verbatim>\<open>..\<close> is dropped with the element before it, a \<^verbatim>\<open>..\<close>
  at the start of a rooted path is dropped, the empty path becomes \<^verbatim>\<open>.\<close>, and
  the separator is the one of the platform. \<open>out\<close> holds the elements kept so far,
  last first.
\<close>

fun cleanElems :: "bool \<Rightarrow> string list \<Rightarrow> string list \<Rightarrow> string list" where
  "cleanElems rooted out [] = rev out"
| "cleanElems rooted out (c # cs) =
     (if c = [] \<or> c = ''.'' then cleanElems rooted out cs
      else if c = ''..'' then
        (case out of
           [] \<Rightarrow> (if rooted then cleanElems rooted [] cs else cleanElems rooted [''..''] cs)
         | x # xs \<Rightarrow>
             (if x = ''..'' then cleanElems rooted (''..'' # out) cs
              else cleanElems rooted xs cs))
      else cleanElems rooted (c # out) cs)"

fun joinWith :: "string \<Rightarrow> string list \<Rightarrow> string" where
  "joinWith sep [] = []"
| "joinWith sep [x] = x"
| "joinWith sep (x # y # zs) = x @ sep @ joinWith sep (y # zs)"

definition filepath_Clean :: "bool \<Rightarrow> string \<Rightarrow> string" where
  "filepath_Clean win path =
     (let vol = VolumeName win path;
          rest = drop (length vol) path;
          rooted = (case rest of [] \<Rightarrow> False | c # cs \<Rightarrow> IsPathSeparator win c);
          els = cleanElems rooted [] (splitOn (IsPathSeparator win) rest);
          body = (if rooted then [Separator win] else []) @ joinWith [Separator win] els
      in vol @ (if body = [] then ''.'' else body))"

text \<open>
  \<^verbatim>\<open>filepath.Dir(path)\<close>: the volume, and the rest of the path up to its last
  separator, cleaned.
\<close>

definition filepath_Dir :: "bool \<Rightarrow> string \<Rightarrow> string" where
  "filepath_Dir win path =
     (let vol = VolumeName win path;
          rest = drop (length vol) path;
          d = rev (dropWhile (\<lambda>c. \<not> IsPathSeparator win c) (rev rest))
      in vol @ filepath_Clean win d)"

text \<open>
  \<^verbatim>\<open>filepath.Join(dir, name)\<close>: the elements that are not empty, joined by the
  separator and cleaned; on Windows a first element that is a bare drive, as
  \<^verbatim>\<open>C:\<close>, takes the next one without a separator.
\<close>

definition filepath_Join :: "bool \<Rightarrow> string \<Rightarrow> string \<Rightarrow> string" where
  "filepath_Join win dir name =
     (if dir = [] then (if name = [] then [] else filepath_Clean win name)
      else if win \<and> length dir = 2 \<and> dir ! 1 = CHR '':'' then filepath_Clean win (dir @ name)
      else if name = [] then filepath_Clean win dir
      else filepath_Clean win (dir @ [Separator win] @ name))"

fun digit :: "nat \<Rightarrow> char" where
  "digit n = char_of (48 + n)"

fun itoa :: "nat \<Rightarrow> string" where
  "itoa n = (if n < 10 then [digit n] else itoa (n div 10) @ [digit (n mod 10)])"

declare itoa.simps [simp del]

section \<open>The program\<close>

subsection \<open>\<^verbatim>\<open>IsDir\<close>, \<^verbatim>\<open>IsFile\<close>, \<^verbatim>\<open>mkdirAll\<close>\<close>

definition IsDir :: "string \<Rightarrow> state \<Rightarrow> bool" where
  "IsDir path s = (case os_Stat path s of Inl e \<Rightarrow> False | Inr st \<Rightarrow> IsDir_info st)"

definition IsFile :: "string \<Rightarrow> state \<Rightarrow> bool" where
  "IsFile path s = (\<not> IsDir path s)"

definition mkdirAll :: "string \<Rightarrow> state \<Rightarrow> error option \<times> state" where
  "mkdirAll path s = os_MkdirAll path s"

subsection \<open>\<^verbatim>\<open>Copy\<close> (the sibling copies) and \<^verbatim>\<open>copyFile\<close> (\<^verbatim>\<open>watch.go\<close>)\<close>

text \<open>
  \<^verbatim>\<open>Copy(src, dst)\<close>: open the source, create (truncate) the destination, copy, and
  return the error of the copy or of closing the destination; closing a file of the
  model does not fail.
\<close>

definition Copy :: "string \<Rightarrow> string \<Rightarrow> state \<Rightarrow> error option \<times> state" where
  "Copy src dst s =
     (case os_Open src s of
        Inl e \<Rightarrow> (Some e, s)
      | Inr fin \<Rightarrow>
          (case os_Create dst s of
             Inl e \<Rightarrow> (Some e, s)
           | Inr (fout, s1) \<Rightarrow>
               (case io_Copy fout (Some fin) s1 of
                  ((n, Some e), s2) \<Rightarrow> (Some e, s2)
                | ((n, None), s2) \<Rightarrow> (None, s2))))"

text \<open>
  \<^verbatim>\<open>copyFile(dstFileName, srcFileName)\<close>: a source that does not open is reported on
  standard output and the function goes on with the nil file; the destination is opened
  with \<^verbatim>\<open>O_WRONLY|O_CREATE\<close> (no \<^verbatim>\<open>O_TRUNC\<close>); the copy runs through a
  \<^verbatim>\<open>bufio.Writer\<close> that is not flushed.
\<close>

definition copyFile :: "string \<Rightarrow> string \<Rightarrow> state \<Rightarrow> (nat \<times> error option) \<times> state" where
  "copyFile dstFileName srcFileName s =
     (let (srcFile, s1) =
            (case os_Open srcFileName s of
               Inl e \<Rightarrow> (None, toStdout (''open file error = '' @ Error e) s)
             | Inr f \<Rightarrow> (Some f, s))
      in (case os_OpenFile dstFileName False s1 of
            Inl e \<Rightarrow> ((0, Some e), toStdout (''open file error = '' @ Error e) s1)
          | Inr (dstFile, s2) \<Rightarrow> bufio_Copy dstFile srcFile s2))"

subsection \<open>\<^verbatim>\<open>sync\<close> (\<^verbatim>\<open>watch.go\<close>), \<^verbatim>\<open>syncFile\<close> (the sibling copies)\<close>

text \<open>
  The mirror path, lines 202 to 207 of \<^verbatim>\<open>watch.go\<close>:
  \<^verbatim>\<open>strings.Replace(filePath, filePath[0:2], copyDir, 1)\<close> on Windows,
  \<^verbatim>\<open>copyDir + filePath\<close> elsewhere.
\<close>

definition newPath :: "bool \<Rightarrow> string \<Rightarrow> string \<Rightarrow> panic + string" where
  "newPath win cdir filePath =
     (if win then
        (case slice filePath 0 2 of
           Inl p \<Rightarrow> Inl p
         | Inr old \<Rightarrow> Inr (strings_Replace1 filePath old cdir))
      else Inr (cdir @ filePath))"

text \<open>
  \<^verbatim>\<open>sync(filePath)\<close> and \<^verbatim>\<open>syncFile(filePath)\<close> are the same function up to the
  function they hand to \<^verbatim>\<open>time.AfterFunc\<close>, which is recorded in \<^const>\<open>timers\<close>
  with the two paths it captures. The timer has not run when \<^verbatim>\<open>return err\<close> is
  reached, so the error returned there is the nil one of \<^verbatim>\<open>mkdirAll\<close>.
\<close>

definition sync :: "string \<Rightarrow> state \<Rightarrow> panic + (error option \<times> state)" where
  "sync filePath s =
     (if length (copyDir s) = 0 \<or> \<not> IsDir (copyDir s) s then Inr (None, s)
      else
        (case newPath (windows s) (copyDir s) filePath of
           Inl p \<Rightarrow> Inl p
         | Inr np \<Rightarrow>
             (if IsDir filePath s then
                (if IsDir np s then Inr (None, toStdout (Println [''dir exists'', np]) s)
                 else Inr (mkdirAll np s))
              else if IsFile filePath s then
                (let dirName = filepath_Dir (windows s) np
                 in (case mkdirAll dirName s of
                       (Some e, s1) \<Rightarrow> Inr (Some e, s1)
                     | (None, s1) \<Rightarrow>
                         (let s2 = toStdout (''copy file from '' @ filePath @ '' to '' @ np
                                      @ '' in '' @ itoa (sleep s1) @ '' secend'') s1
                          in Inr (None, s2\<lparr>timers := timers s2 @ [(sleep s2, filePath, np)]\<rparr>))))
              else Inr (None, s))))"

text \<open>
  The function \<^verbatim>\<open>sync\<close> of \<^verbatim>\<open>watch.go\<close> schedules, run on the state the machine
  is in when the delay has passed.
\<close>

definition afterFunc_sync :: "string \<Rightarrow> string \<Rightarrow> state \<Rightarrow> state" where
  "afterFunc_sync filePath np s =
     (if IsFile filePath s then
        (case copyFile np filePath s of
           ((written, Some e), s1) \<Rightarrow> toStderr (Println [Error e]) s1
         | ((written, None), s1) \<Rightarrow> toStdout (Println [''file copy success'', np]) s1)
      else s)"

text \<open>
  The function \<^verbatim>\<open>syncFile\<close> of the sibling copies schedules. (One sibling prints
  with \<^verbatim>\<open>fmt\<close>, as here; the other sends the same messages through the
  \<^verbatim>\<open>log\<close> package.)
\<close>

definition afterFunc_syncFile :: "string \<Rightarrow> string \<Rightarrow> state \<Rightarrow> state" where
  "afterFunc_syncFile filePath np s =
     (if IsFile filePath s then
        (case Copy filePath np s of
           (Some e, s1) \<Rightarrow> toStderr (Println [Error e]) s1
         | (None, s1) \<Rightarrow> toStdout (Println [''file copy success'', np]) s1)
      else s)"

subsection \<open>\<^verbatim>\<open>ResolvePaths\<close>\<close>

text \<open>
  \<^verbatim>\<open>filepath.Walk(root, fn)\<close>: \<open>fn\<close> is called on the root and on everything below
  it, a directory before its entries, the entries in the order of the listing. A
  directory is listed before \<open>fn\<close> is called on it, and \<open>fn\<close> gets the error of the
  listing. An error of \<open>fn\<close> ends the walk, except \<^verbatim>\<open>SkipDir\<close>: on a directory
  it skips the entries of that directory, on a file the rest of the directory the file
  is in. The value \<open>a\<close> is what \<open>fn\<close>, a closure, has in its captured variables.
\<close>

type_synonym 'a WalkFunc = "string \<Rightarrow> node option \<Rightarrow> error option \<Rightarrow> 'a \<Rightarrow> error option \<times> 'a"

fun walk :: "bool \<Rightarrow> 'a WalkFunc \<Rightarrow> string \<Rightarrow> node \<Rightarrow> 'a \<Rightarrow> error option \<times> 'a"
  and walkEntries :: "bool \<Rightarrow> 'a WalkFunc \<Rightarrow> string \<Rightarrow> (string \<times> node) list \<Rightarrow> 'a
    \<Rightarrow> error option \<times> 'a" where
  "walk win fn path (RegFile b) a = fn path (Some (RegFile b)) None a"
| "walk win fn path (Directory l es) a =
     (let er = (if l then None else Some (PathError ''open'' path EACCES))
      in (case fn path (Some (Directory l es)) er a of
            (er1, a1) \<Rightarrow>
              (if er \<noteq> None \<or> er1 \<noteq> None then (er1, a1)
               else walkEntries win fn path es a1)))"
| "walkEntries win fn path [] a = (None, a)"
| "walkEntries win fn path ((name, c) # es) a =
     (case walk win fn (filepath_Join win path name) c a of
        (Some e, a1) \<Rightarrow>
          (if \<not> IsDir_info c \<or> e \<noteq> SkipDir then (Some e, a1)
           else walkEntries win fn path es a1)
      | (None, a1) \<Rightarrow> walkEntries win fn path es a1)"

definition filepath_Walk :: "string \<Rightarrow> 'a WalkFunc \<Rightarrow> 'a \<Rightarrow> state \<Rightarrow> error option \<times> 'a" where
  "filepath_Walk rt fn a s =
     (case (case os_Stat rt s of
              Inl e \<Rightarrow> fn rt None (Some e) a
            | Inr info \<Rightarrow> walk (windows s) fn rt info a) of
        (er, a1) \<Rightarrow> (if er = Some SkipDir then None else er, a1))"

text \<open>
  The closure \<^verbatim>\<open>walker\<close> of \<^verbatim>\<open>ResolvePaths\<close>; it captures \<^verbatim>\<open>recurse\<close> and
  appends to \<^verbatim>\<open>resolved\<close>. Its \<^verbatim>\<open>info\<close> is nil only together with an error,
  on which it has returned before it looks at \<^verbatim>\<open>info\<close>.
\<close>

definition walker :: "error option \<Rightarrow> string list WalkFunc" where
  "walker recurse path info er resolved =
     (if er \<noteq> None then (er, resolved)
      else (recurse,
            if (case info of None \<Rightarrow> False | Some st \<Rightarrow> IsDir_info st) then resolved @ [path]
            else resolved))"

text \<open>
  The loop over \<^verbatim>\<open>args\<close>. The package-level \<^verbatim>\<open>err\<close> takes the error of
  \<^verbatim>\<open>os.Stat\<close> and then that of \<^verbatim>\<open>filepath.Walk\<close>; only the first is returned.
\<close>

fun ResolvePaths_loop :: "string list \<Rightarrow> error option \<Rightarrow> string list \<Rightarrow> state
    \<Rightarrow> (error + string list) \<times> state" where
  "ResolvePaths_loop [] recurse resolved s = (Inr resolved, s)"
| "ResolvePaths_loop (path # args) recurse resolved s =
     (if path = [] then ResolvePaths_loop args recurse resolved s
      else
        (case os_Stat path s of
           Inl e \<Rightarrow> (Inl e, s\<lparr>err := Some e\<rparr>)
         | Inr stat \<Rightarrow>
             (if \<not> IsDir_info stat then
                ResolvePaths_loop args recurse (resolved @ [path]) (s\<lparr>err := None\<rparr>)
              else
                (case filepath_Walk path (walker recurse) resolved s of
                   (er, resolved1) \<Rightarrow>
                     ResolvePaths_loop args recurse resolved1 (s\<lparr>err := er\<rparr>)))))"

definition ResolvePaths :: "string list \<Rightarrow> state \<Rightarrow> (error + string list) \<times> state" where
  "ResolvePaths args s =
     (let recurse = (if NoRecurse s then Some SkipDir else None)
      in ResolvePaths_loop args recurse [] s)"

subsection \<open>\<^verbatim>\<open>init\<close>\<close>

definition usage :: string where
  "usage = [CHR 0x0A] @ ''Usage:'' @ [CHR 0x0A] @ ''  watch paths... '' @ [CHR 0x0A, CHR 0x0A]
     @ ''Example:'' @ [CHR 0x0A] @ ''  watch D:/Windows'' @ [CHR 0x0A]"

text \<open>
  How \<^verbatim>\<open>init\<close> ends: \<^verbatim>\<open>os.Exit(code)\<close>, a panic, or a return into
  \<^verbatim>\<open>main\<close>.
\<close>

datatype outcome = Exit nat state | Panics panic | Returns state

text \<open>
  The variables of the program as its \<^verbatim>\<open>var\<close> block initialises them, on a given
  machine.
\<close>

definition start :: "bool \<Rightarrow> node \<Rightarrow> nat \<Rightarrow> bool \<Rightarrow> state" where
  "start win fs sp rf =
     \<lparr>windows = win, root = fs, space = sp, fileReadFrom = rf, copyDir = [], sleep = 10,
      NoRecurse = False, paths = [], err = None, stdout = [], stderr = [], timers = []\<rparr>"

text \<open>
  \<^verbatim>\<open>init\<close> of \<^verbatim>\<open>watch.go\<close>, on \<^verbatim>\<open>os.Args\<close>: its test before the diagnostic
  is \<^verbatim>\<open>len(copyDir) > 0 || !IsDir(copyDir)\<close>. \<^verbatim>\<open>opts.Interval\<close> is the constant
  \<^verbatim>\<open>1s\<close>, which \<^verbatim>\<open>time.ParseDuration\<close> parses, so \<^verbatim>\<open>err\<close> is nil at the
  end; \<^verbatim>\<open>interval\<close> and \<^verbatim>\<open>last\<close> are written here and read nowhere.
\<close>

definition init :: "string list \<Rightarrow> state \<Rightarrow> outcome" where
  "init Args s =
     (if length Args = 1 then Exit 0 (toStderr (Println [usage]) s)
      else if length Args < 2 then Panics IndexOutOfRange
      else
        (case ResolvePaths [Args ! 1] s of
           (r, s0) \<Rightarrow>
             (let s1 = s0\<lparr>paths := (case r of Inl e \<Rightarrow> [] | Inr ps \<Rightarrow> ps),
                         err := (case r of Inl e \<Rightarrow> Some e | Inr ps \<Rightarrow> None)\<rparr>
              in if length (paths s1) \<le> 0 then Exit 2 (toStderr (Println [usage]) s1)
                 else
                   (let s2 = (if length Args \<ge> 3 \<and> IsDir (Args ! 2) s1
                              then s1\<lparr>copyDir := Args ! 2\<rparr> else s1);
                        s3 = (if length (copyDir s2) > 0 \<or> \<not> IsDir (copyDir s2) s2
                              then toStderr (Println [''copy target dir is not exists'',
                                                       copyDir s2]) s2
                              else s2)
                    in Returns (s3\<lparr>err := None\<rparr>)))))"

text \<open>
  \<^verbatim>\<open>init\<close> of the two sibling copies: the same function with the test
  \<^verbatim>\<open>len(copyDir) == 0 || !IsDir(copyDir)\<close>. (One of them prints through the
  \<^verbatim>\<open>log\<close> package, which writes to standard error as well.)
\<close>

definition init_sibling :: "string list \<Rightarrow> state \<Rightarrow> outcome" where
  "init_sibling Args s =
     (if length Args = 1 then Exit 0 (toStderr (Println [usage]) s)
      else if length Args < 2 then Panics IndexOutOfRange
      else
        (case ResolvePaths [Args ! 1] s of
           (r, s0) \<Rightarrow>
             (let s1 = s0\<lparr>paths := (case r of Inl e \<Rightarrow> [] | Inr ps \<Rightarrow> ps),
                         err := (case r of Inl e \<Rightarrow> Some e | Inr ps \<Rightarrow> None)\<rparr>
              in if length (paths s1) \<le> 0 then Exit 2 (toStderr (Println [usage]) s1)
                 else
                   (let s2 = (if length Args \<ge> 3 \<and> IsDir (Args ! 2) s1
                              then s1\<lparr>copyDir := Args ! 2\<rparr> else s1);
                        s3 = (if length (copyDir s2) = 0 \<or> \<not> IsDir (copyDir s2) s2
                              then toStderr (Println [''copy target dir is not exists'',
                                                       copyDir s2]) s2
                              else s2)
                    in Returns (s3\<lparr>err := None\<rparr>)))))"


section \<open>Running the program\<close>

text \<open>
  The Go runtime runs a function given to \<^verbatim>\<open>time.AfterFunc\<close> once its delay has
  passed: the oldest pending one is taken from \<^const>\<open>timers\<close> and run on the state of
  that moment, for \<^verbatim>\<open>watch.go\<close> and for the sibling copies.
\<close>

definition fire_sync :: "state \<Rightarrow> state" where
  "fire_sync s =
     (case timers s of
        [] \<Rightarrow> s
      | (d, filePath, np) # ts \<Rightarrow> afterFunc_sync filePath np (s\<lparr>timers := ts\<rparr>))"

definition fire_syncFile :: "state \<Rightarrow> state" where
  "fire_syncFile s =
     (case timers s of
        [] \<Rightarrow> s
      | (d, filePath, np) # ts \<Rightarrow> afterFunc_syncFile filePath np (s\<lparr>timers := ts\<rparr>))"

text \<open>\<^verbatim>\<open>sync\<close> called \<open>n\<close> times in a row on the same path.\<close>

fun sync_times :: "nat \<Rightarrow> string \<Rightarrow> state \<Rightarrow> panic + (error option list \<times> state)" where
  "sync_times 0 p s = Inr ([], s)"
| "sync_times (Suc n) p s =
     (case sync p s of
        Inl x \<Rightarrow> Inl x
      | Inr (e, s1) \<Rightarrow>
          (case sync_times n p s1 of Inl x \<Rightarrow> Inl x | Inr (es, s2) \<Rightarrow> Inr (e # es, s2)))"

subsection \<open>Machines to run it on\<close>

text \<open>
  A watch root \<^verbatim>\<open>/data\<close> with a file and a subdirectory, and an empty mirror
  directory \<^verbatim>\<open>/backup\<close>.
\<close>

definition dataTree :: node where
  "dataTree =
     Directory True
       [(''backup'', Directory True []),
        (''data'', Directory True [(''a.txt'', RegFile ''hello''), (''sub'', Directory True [])])]"

text \<open>
  The same after \<^verbatim>\<open>/data/a.txt\<close> has been mirrored and then rewritten with the two
  bytes \<^verbatim>\<open>hi\<close>.
\<close>

definition rewrittenTree :: node where
  "rewrittenTree =
     Directory True
       [(''backup'', Directory True [(''data'', Directory True [(''a.txt'', RegFile ''hello'')])]),
        (''data'', Directory True [(''a.txt'', RegFile ''hi''), (''sub'', Directory True [])])]"

text \<open>
  \<^const>\<open>dataTree\<close> after \<^verbatim>\<open>sync\<close> has made \<^verbatim>\<open>/backup/data\<close> and
  \<^verbatim>\<open>/data/a.txt\<close> has been deleted.
\<close>

definition deletedTree :: node where
  "deletedTree =
     Directory True
       [(''backup'', Directory True [(''data'', Directory True [])]),
        (''data'', Directory True [(''sub'', Directory True [])])]"

text \<open>A watch root whose subdirectory \<^verbatim>\<open>/data/sub\<close> cannot be listed.\<close>

definition lockedTree :: node where
  "lockedTree =
     Directory True
       [(''data'', Directory True [(''sub'', Directory False [(''deep'', Directory True [])])])]"

text \<open>
  A Windows machine with the volumes \<^verbatim>\<open>C:\<close> and \<^verbatim>\<open>D:\<close>, and a directory with
  the one-letter name \<^verbatim>\<open>a\<close> in the working directory.
\<close>

definition windowsTree :: node where
  "windowsTree =
     Directory True
       [(''C:'', Directory True [(''data'', Directory True [(''a.txt'', RegFile ''hello'')])]),
        (''D:'', Directory True [(''backup'', Directory True [])]),
        (''a'', Directory True [])]"

text \<open>The program with \<^verbatim>\<open>copyDir\<close> set, as \<^verbatim>\<open>init\<close> leaves it.\<close>

definition mirroring :: "string \<Rightarrow> state \<Rightarrow> state" where
  "mirroring dir s = s\<lparr>copyDir := dir\<rparr>"


section \<open>What the file system calls depend on\<close>

lemma os_Stat_cong:
  "windows s = windows s' \<Longrightarrow> root s = root s' \<Longrightarrow> os_Stat p s = os_Stat p s'"
  by (simp add: os_Stat_def cong: sum.case_cong)

lemma IsDir_cong:
  "windows s = windows s' \<Longrightarrow> root s = root s' \<Longrightarrow> IsDir p s = IsDir p s'"
  by (simp add: IsDir_def os_Stat_cong [of s s'])

lemma IsDir_toStdout [simp]: "IsDir p (toStdout l s) = IsDir p s"
  by (rule IsDir_cong) (simp_all add: toStdout_def)

lemma IsDir_update:
  "IsDir p (s\<lparr>err := e\<rparr>) = IsDir p s"
  "IsDir p (s\<lparr>paths := ps\<rparr>) = IsDir p s"
  "IsDir p (s\<lparr>copyDir := d\<rparr>) = IsDir p s"
  "IsDir p (s\<lparr>timers := ts\<rparr>) = IsDir p s"
  by (rule IsDir_cong; simp)+

lemma filepath_Walk_cong:
  "windows s = windows s' \<Longrightarrow> root s = root s' \<Longrightarrow>
   filepath_Walk p fn a s = filepath_Walk p fn a s'"
  by (simp add: filepath_Walk_def os_Stat_cong [of s s'] cong: sum.case_cong)

section \<open>The mirror path\<close>

lemma strings_Replace1_prefix:
  "strings_Replace1 p (take n p) new = new @ drop n p"
  by (cases p) (simp_all add: take_is_prefix min_def)

lemma newPath_windows:
  "newPath True cdir p =
     (if 2 \<le> length p then Inr (cdir @ drop 2 p) else Inl SliceBoundsOutOfRange)"
  by (simp add: newPath_def slice_def strings_Replace1_prefix)

text \<open>
  Claim C3. The mirror path is a function of the source path, the mirror directory and
  the platform alone: where paths are rooted it is the mirror directory followed by the
  source path, and on Windows it is the source path with its first two characters
  replaced by the mirror directory. Being a function of these three arguments, it gives
  the same path whenever it is called on the same three.
\<close>

theorem newPath_mapping:
  "newPath False cdir p = Inr (cdir @ p) \<and>
   (2 \<le> length p \<longrightarrow> newPath True cdir p = Inr (cdir @ drop 2 p)) \<and>
   (win = win' \<and> cdir = cdir' \<and> p = p' \<longrightarrow> newPath win cdir p = newPath win' cdir' p')"
  by (simp add: newPath_windows) (simp add: newPath_def)

theorem newPath_mapping_witness:
  "newPath False ''/backup'' ''/data/a.txt'' = Inr ''/backup/data/a.txt'' \<and>
   2 \<le> length ''C:/data/a.txt'' \<and>
   newPath True ''D:/backup'' ''C:/data/a.txt'' = Inr ''D:/backup/data/a.txt''"
  using newPath_mapping [of "''/backup''" "''/data/a.txt''" True True "''/backup''" "''/data/a.txt''"]
    newPath_mapping [of "''D:/backup''" "''C:/data/a.txt''" True True "''D:/backup''" "''C:/data/a.txt''"]
  by simp

section \<open>\<^verbatim>\<open>sync\<close>\<close>

text \<open>
  Whatever else the state holds, the copy that \<^verbatim>\<open>sync\<close> schedules goes to the
  mirror path of \<^verbatim>\<open>runtime.GOOS\<close>, \<^verbatim>\<open>copyDir\<close> and \<^verbatim>\<open>filePath\<close>.
\<close>

lemma mkdirAll_keeps:
  "mkdirAll d s = (e, s1) \<Longrightarrow>
   timers s1 = timers s \<and> sleep s1 = sleep s \<and> stderr s1 = stderr s"
  by (auto simp add: mkdirAll_def os_MkdirAll_def split: if_splits sum.splits)

lemma sync_schedules_newPath:
  assumes "sync p s = Inr (e, s')"
  shows "timers s' = timers s \<or>
         (\<exists>np. newPath (windows s) (copyDir s) p = Inr np \<and> e = None
            \<and> timers s' = timers s @ [(sleep s, p, np)])"
  using assms
  by (auto simp add: sync_def Let_def toStdout_def
      split: if_splits sum.splits prod.splits option.splits dest: mkdirAll_keeps)

text \<open>
  Claim C4. When no mirror directory is configured, or the configured one is not an
  existing directory, \<^verbatim>\<open>sync\<close> returns the nil error and leaves everything as it
  was: the file tree (no destination, and no mirror root, is made), the pending timers
  and both output streams.
\<close>

theorem sync_without_mirror:
  "length (copyDir s) = 0 \<or> \<not> IsDir (copyDir s) s \<Longrightarrow> sync p s = Inr (None, s)"
  by (auto simp add: sync_def)

theorem sync_without_mirror_witness:
  "length (copyDir (start False dataTree 4096 True)) = 0 \<and>
   sync ''/data/a.txt'' (start False dataTree 4096 True)
     = Inr (None, start False dataTree 4096 True) \<and>
   \<not> IsDir ''/mirror'' (mirroring ''/mirror'' (start False dataTree 4096 True)) \<and>
   sync ''/data/a.txt'' (mirroring ''/mirror'' (start False dataTree 4096 True))
     = Inr (None, mirroring ''/mirror'' (start False dataTree 4096 True))"
proof -
  have 1: "length (copyDir (start False dataTree 4096 True)) = 0"
    by (simp add: start_def)
  have 2: "\<not> IsDir ''/mirror'' (mirroring ''/mirror'' (start False dataTree 4096 True))"
    by code_simp
  then have 3: "\<not> IsDir (copyDir (mirroring ''/mirror'' (start False dataTree 4096 True)))
                   (mirroring ''/mirror'' (start False dataTree 4096 True))"
    by (simp add: mirroring_def)
  show ?thesis
    using 1 2 sync_without_mirror [of "start False dataTree 4096 True" "''/data/a.txt''"]
      sync_without_mirror [of "mirroring ''/mirror'' (start False dataTree 4096 True)"
        "''/data/a.txt''"] 3
    by blast
qed

lemma sync_dir_exists:
  assumes "IsDir p s" and "newPath (windows s) (copyDir s) p = Inr np" and "IsDir np s"
  shows "sync p s = Inr (None, s)
         \<or> sync p s = Inr (None, toStdout (Println [''dir exists'', np]) s)"
  using assms by (simp add: sync_def)

text \<open>
  Claim C5. When the source path is a directory and its mirror path is a directory
  already, \<^verbatim>\<open>sync\<close> called any number of times returns the nil error each time and
  leaves the file tree as it was; it schedules no copy and reports nothing on standard
  error.
\<close>

theorem sync_existing_directory:
  assumes "IsDir p s" and "newPath (windows s) (copyDir s) p = Inr np" and "IsDir np s"
  shows "\<exists>s'. sync_times n p s = Inr (replicate n None, s') \<and> root s' = root s
           \<and> timers s' = timers s \<and> stderr s' = stderr s"
  using assms
proof (induction n arbitrary: s)
  case 0
  then show ?case by simp
next
  case (Suc n)
  let ?t = "toStdout (Println [''dir exists'', np]) s"
  from sync_dir_exists [OF Suc.prems]
  consider "sync p s = Inr (None, s)" | "sync p s = Inr (None, ?t)" by blast
  then show ?case
  proof cases
    case 1
    with Suc.IH [OF Suc.prems] show ?thesis by auto
  next
    case 2
    have t: "windows ?t = windows s" "copyDir ?t = copyDir s" "root ?t = root s"
      "timers ?t = timers s" "stderr ?t = stderr s"
      by (simp_all add: toStdout_def)
    have "IsDir p ?t" "newPath (windows ?t) (copyDir ?t) p = Inr np" "IsDir np ?t"
      using Suc.prems by (simp_all add: t)
    from Suc.IH [OF this] 2 t show ?thesis by auto
  qed
qed

theorem sync_existing_directory_witness:
  "IsDir ''/data'' (mirroring ''/backup'' (start False rewrittenTree 4096 True)) \<and>
   IsDir ''/backup/data'' (mirroring ''/backup'' (start False rewrittenTree 4096 True)) \<and>
   (\<exists>s'. sync_times 2 ''/data'' (mirroring ''/backup'' (start False rewrittenTree 4096 True))
            = Inr ([None, None], s') \<and> root s' = rewrittenTree \<and> timers s' = []
          \<and> stderr s' = [])"
proof -
  let ?s = "mirroring ''/backup'' (start False rewrittenTree 4096 True)"
  have 1: "IsDir ''/data'' ?s" by code_simp
  have 2: "newPath (windows ?s) (copyDir ?s) ''/data'' = Inr ''/backup/data''" by code_simp
  have 3: "IsDir ''/backup/data'' ?s" by code_simp
  have 4: "root ?s = rewrittenTree" "timers ?s = []" "stderr ?s = []"
    by (simp_all add: mirroring_def start_def)
  have 5: "replicate 2 None = [None, None :: error option]"
    by (simp add: numeral_2_eq_2)
  from sync_existing_directory [OF 1 2 3, of 2] 1 3 show ?thesis
    unfolding 4 5 by blast
qed

text \<open>
  Claim C10, as the program has it. On Windows, with a mirror directory that is
  configured and exists, \<^verbatim>\<open>sync\<close> takes \<^verbatim>\<open>filePath[0:2]\<close> with no test of the
  length: it panics with a slice out of range exactly when the path is shorter than two
  bytes, and returns for every path of two bytes or more. (With no mirror directory it
  returns before the slice is taken, whatever the length of the path.)
\<close>

theorem sync_windows_slice:
  assumes "windows s" and "copyDir s \<noteq> []" and "IsDir (copyDir s) s"
  shows "(sync p s = Inl SliceBoundsOutOfRange) = (length p < 2) \<and>
         (\<exists>r. sync p s = Inr r) = (2 \<le> length p)"
proof (cases "2 \<le> length p")
  case True
  then have np: "newPath (windows s) (copyDir s) p = Inr (copyDir s @ drop 2 p)"
    using assms(1) by (simp add: newPath_windows)
  have "\<exists>r. sync p s = Inr r"
    using assms np by (simp add: sync_def Let_def split: prod.splits option.splits)
  with True show ?thesis by auto
next
  case False
  then have np: "newPath (windows s) (copyDir s) p = Inl SliceBoundsOutOfRange"
    using assms(1) by (simp add: newPath_windows)
  have "sync p s = Inl SliceBoundsOutOfRange"
    using assms np by (simp add: sync_def)
  with False show ?thesis by auto
qed

theorem sync_windows_slice_witness:
  "windows (mirroring ''D:/backup'' (start True windowsTree 4096 True)) \<and>
   IsDir ''D:/backup'' (mirroring ''D:/backup'' (start True windowsTree 4096 True)) \<and>
   sync ''a'' (mirroring ''D:/backup'' (start True windowsTree 4096 True))
     = Inl SliceBoundsOutOfRange \<and>
   (\<exists>r. sync ''C:/data/a.txt'' (mirroring ''D:/backup'' (start True windowsTree 4096 True))
           = Inr r)"
proof -
  let ?s = "mirroring ''D:/backup'' (start True windowsTree 4096 True)"
  have 1: "windows ?s" by (simp add: mirroring_def start_def)
  have 2: "copyDir ?s \<noteq> []" by (simp add: mirroring_def)
  have 3: "IsDir ''D:/backup'' ?s" by code_simp
  then have 4: "IsDir (copyDir ?s) ?s" by (simp add: mirroring_def)
  from sync_windows_slice [OF 1 2 4, of "''a''"]
    sync_windows_slice [OF 1 2 4, of "''C:/data/a.txt''"] 1 3
  show ?thesis by simp
qed

text \<open>
  Claim C10, as the specification has it, fails where no mirror directory is configured:
  on Windows \<^verbatim>\<open>sync\<close> of the one-byte path \<^verbatim>\<open>a\<close> returns the nil error and
  changes nothing.
\<close>

theorem sync_windows_short_path_counterexample:
  "windows (start True windowsTree 4096 True) \<and> length ''a'' < 2 \<and>
   sync ''a'' (start True windowsTree 4096 True) = Inr (None, start True windowsTree 4096 True)"
  by code_simp


section \<open>\<^verbatim>\<open>ResolvePaths\<close>\<close>

lemma walker_prefix: "prefix a (snd (walker r p info er a))"
  by (simp add: walker_def)

text \<open>The walk only appends to \<^verbatim>\<open>resolved\<close>.\<close>

lemma walk_walker_prefix:
  "prefix a (snd (walk win (walker r) p n a))"
  "prefix a (snd (walkEntries win (walker r) p es a))"
proof (induction win "walker r" p n a and win "walker r" p es a rule: walk_walkEntries.induct)
  case (1 win path b a)
  then show ?case by (simp add: walker_prefix)
next
  case (2 win path l es a)
  let ?er = "if l then None else Some (PathError ''open'' path EACCES)"
  obtain er1 a1 where w: "walker r path (Some (Directory l es)) ?er a = (er1, a1)"
    by (cases "walker r path (Some (Directory l es)) ?er a")
  have p1: "prefix a a1"
    using walker_prefix [of a r path "Some (Directory l es)" ?er] w by simp
  show ?case
  proof (cases "?er \<noteq> None \<or> er1 \<noteq> None")
    case True
    then show ?thesis using w p1 by (simp add: Let_def)
  next
    case False
    then have "prefix a1 (snd (walkEntries win (walker r) path es a1))"
      using 2 [OF refl w [symmetric]] by simp
    with p1 False w show ?thesis by (auto simp add: Let_def intro: prefix_order.trans)
  qed
next
  case (3 win path a)
  then show ?case by simp
next
  case (4 win path name c es a)
  obtain e a1 where w: "walk win (walker r) (filepath_Join win path name) c a = (e, a1)"
    by (cases "walk win (walker r) (filepath_Join win path name) c a")
  have p1: "prefix a a1" using 4(1) w by simp
  have p2: "prefix a1 (snd (walkEntries win (walker r) path es a1))"
    if "e = None \<or> (\<exists>x. e = Some x \<and> \<not> (\<not> IsDir_info c \<or> x \<noteq> SkipDir))"
    using that 4(2,3) w by (cases e) auto
  show ?case
    using w p1 p2 by (cases e) (auto intro: prefix_order.trans)
qed

text \<open>
  With \<^verbatim>\<open>recurse = filepath.SkipDir\<close> the walk of a directory ends at the
  directory itself.
\<close>

lemma Walk_norecurse:
  assumes "os_Stat p s = Inr (Directory l es)"
  shows "filepath_Walk p (walker (Some SkipDir)) a s =
           (if l then (None, a @ [p]) else (Some (PathError ''open'' p EACCES), a))"
  using assms by (simp add: filepath_Walk_def walker_def)

lemma Walk_recurse:
  assumes "os_Stat p s = Inr (Directory l es)"
  shows "prefix (if l then a @ [p] else a) (snd (filepath_Walk p (walker None) a s))"
proof (cases l)
  case True
  have "prefix (a @ [p]) (snd (walkEntries (windows s) (walker None) p es (a @ [p])))"
    by (rule walk_walker_prefix)
  with True assms show ?thesis
    by (auto simp add: filepath_Walk_def walker_def split: prod.splits)
next
  case False
  with assms show ?thesis
    by (simp add: filepath_Walk_def walker_def)
qed

lemma loop_superset:
  assumes "set a0 \<subseteq> set a1" and "fst (ResolvePaths_loop args (Some SkipDir) a0 s) = Inr r0"
    and "windows s' = windows s" and "root s' = root s"
  shows "\<exists>r1. fst (ResolvePaths_loop args None a1 s') = Inr r1 \<and> set r0 \<subseteq> set r1"
  using assms
proof (induction args arbitrary: a0 a1 s s')
  case Nil
  then show ?case by simp
next
  case (Cons path args)
  have st: "os_Stat path s' = os_Stat path s"
    using Cons.prems(3,4) by (rule os_Stat_cong)
  show ?case
  proof (cases "path = []")
    case True
    with Cons.IH [OF Cons.prems(1) _ Cons.prems(3,4)] Cons.prems(2) show ?thesis by simp
  next
    case False
    show ?thesis
    proof (cases "os_Stat path s")
      case (Inl e)
      with False Cons.prems(2) show ?thesis by simp
    next
      case (Inr stat)
      show ?thesis
      proof (cases stat)
        case (RegFile b)
        let ?t = "s\<lparr>err := None\<rparr>" and ?t' = "s'\<lparr>err := None\<rparr>"
        have 1: "set (a0 @ [path]) \<subseteq> set (a1 @ [path])" using Cons.prems(1) by auto
        have 2: "fst (ResolvePaths_loop args (Some SkipDir) (a0 @ [path]) ?t) = Inr r0"
          using Cons.prems(2) False Inr RegFile by simp
        have "windows ?t' = windows ?t" "root ?t' = root ?t" using Cons.prems(3,4) by simp_all
        from Cons.IH [OF 1 2 this] False Inr RegFile st show ?thesis by simp
      next
        case (Directory l es)
        let ?a0 = "if l then a0 @ [path] else a0"
        obtain er1 b1 where w1: "filepath_Walk path (walker None) a1 s' = (er1, b1)"
          by (cases "filepath_Walk path (walker None) a1 s'")
        have "prefix (if l then a1 @ [path] else a1) b1"
          using Walk_recurse [of path s' l es a1] st Inr Directory w1 by simp
        then have 1: "set ?a0 \<subseteq> set b1"
          using Cons.prems(1) by (fastforce dest!: set_mono_prefix split: if_splits)
        let ?e0 = "if l then None else Some (PathError ''open'' path EACCES)"
        let ?t = "s\<lparr>err := ?e0\<rparr>" and ?t' = "s'\<lparr>err := er1\<rparr>"
        have 2: "fst (ResolvePaths_loop args (Some SkipDir) ?a0 ?t) = Inr r0"
          using Cons.prems(2) False Inr Directory Walk_norecurse [of path s l es a0]
          by (simp split: if_splits)
        have "windows ?t' = windows ?t" "root ?t' = root ?t" using Cons.prems(3,4) by simp_all
        from Cons.IH [OF 1 2 this] False Inr Directory st w1 show ?thesis by simp
      qed
    qed
  qed
qed

lemma loop_exists:
  assumes "\<forall>p\<in>set args. p \<noteq> [] \<longrightarrow> (\<exists>st. os_Stat p s = Inr st)"
  shows "\<exists>r. fst (ResolvePaths_loop args rc a s) = Inr r"
  using assms
proof (induction args arbitrary: a s)
  case Nil
  then show ?case by simp
next
  case (Cons path args)
  have keep: "\<forall>p\<in>set args. p \<noteq> [] \<longrightarrow> (\<exists>st. os_Stat p (s\<lparr>err := e\<rparr>) = Inr st)" for e
    using Cons.prems os_Stat_cong [of "s\<lparr>err := e\<rparr>" s] by simp
  show ?case
  proof (cases "path = []")
    case True
    with Cons show ?thesis by simp
  next
    case False
    then obtain st where "os_Stat path s = Inr st" using Cons.prems by auto
    with False Cons.IH [OF keep] show ?thesis
      by (simp split: prod.splits)
  qed
qed

text \<open>
  The loop returns at the first argument that is not empty and that \<^verbatim>\<open>os.Stat\<close>
  does not find, with the error of that argument.
\<close>

lemma loop_fails_first:
  assumes "List.find (\<lambda>x. x \<noteq> [] \<and> isl (os_Stat x s)) args = Some q"
    and "os_Stat q s = Inl e'"
  shows "fst (ResolvePaths_loop args rc a s) = Inl e'"
  using assms
proof (induction args arbitrary: a s)
  case Nil
  then show ?case by simp
next
  case (Cons path args)
  have same: "os_Stat x (s\<lparr>err := y\<rparr>) = os_Stat x s" for x y
    by (rule os_Stat_cong) simp_all
  show ?case
  proof (cases "path = []")
    case True
    with Cons.prems have "List.find (\<lambda>x. x \<noteq> [] \<and> isl (os_Stat x s)) args = Some q"
      by simp
    from Cons.IH [OF this Cons.prems(2)] True show ?thesis by simp
  next
    case False
    show ?thesis
    proof (cases "os_Stat path s")
      case (Inl e1)
      with False Cons.prems have "q = path" by simp
      with Inl False Cons.prems(2) show ?thesis by simp
    next
      case (Inr st)
      with Cons.prems have f: "List.find (\<lambda>x. x \<noteq> [] \<and> isl (os_Stat x s)) args = Some q"
        by simp
      have "fst (ResolvePaths_loop args rc b (s\<lparr>err := y\<rparr>)) = Inl e'" for b y
        using Cons.IH [of "s\<lparr>err := y\<rparr>" b] f Cons.prems(2) by (simp add: same)
      with False Inr show ?thesis
        by (simp split: prod.splits)
    qed
  qed
qed

lemma lookup_errno: "lookup cs t = Inl en \<Longrightarrow> en = ENOENT \<or> en = ENOTDIR"
  by (induction cs t rule: lookup.induct) (auto split: option.splits)

lemma canon_errno: "canon rt acc cs = Inl en \<Longrightarrow> en = ENOENT \<or> en = ENOTDIR"
  by (induction rt acc cs rule: canon.induct)
    (auto split: sum.splits node.splits if_splits dest: lookup_errno)

lemma os_Stat_error:
  "os_Stat p s = Inl e \<Longrightarrow> e = PathError ''stat'' p ENOENT \<or> e = PathError ''stat'' p ENOTDIR"
  by (auto simp add: os_Stat_def place_def split: if_splits sum.splits
      dest: lookup_errno canon_errno)

text \<open>
  Claim C6, as the program has it. For the same arguments on the same machine, whatever
  \<^verbatim>\<open>ResolvePaths\<close> returns with \<^verbatim>\<open>opts.NoRecurse\<close> set it returns with
  recursion as well: the call with recursion succeeds too and its paths include those of
  the call without. With \<^verbatim>\<open>opts.NoRecurse\<close> set, a root that is a directory gives
  none of its subdirectories: it gives that directory alone when the directory can be
  listed, and nothing when it cannot.
\<close>

theorem ResolvePaths_recursion_superset:
  assumes "fst (ResolvePaths args (s\<lparr>NoRecurse := True\<rparr>)) = Inr r0"
  shows "(\<exists>r1. fst (ResolvePaths args (s\<lparr>NoRecurse := False\<rparr>)) = Inr r1 \<and> set r0 \<subseteq> set r1) \<and>
         (\<forall>rt l es. args = [rt] \<and> os_Stat rt s = Inr (Directory l es)
            \<longrightarrow> r0 = (if l then [rt] else []))"
proof
  have "fst (ResolvePaths_loop args (Some SkipDir) [] (s\<lparr>NoRecurse := True\<rparr>)) = Inr r0"
    using assms by (simp add: ResolvePaths_def)
  from loop_superset [OF _ this, of "[]" "s\<lparr>NoRecurse := False\<rparr>"]
  show "\<exists>r1. fst (ResolvePaths args (s\<lparr>NoRecurse := False\<rparr>)) = Inr r1 \<and> set r0 \<subseteq> set r1"
    by (simp add: ResolvePaths_def)
next
  show "\<forall>rt l es. args = [rt] \<and> os_Stat rt s = Inr (Directory l es)
          \<longrightarrow> r0 = (if l then [rt] else [])"
  proof (intro allI impI, elim conjE)
    fix rt l es
    assume a: "args = [rt]" and st: "os_Stat rt s = Inr (Directory l es)"
    have st': "os_Stat rt (s\<lparr>NoRecurse := True\<rparr>) = Inr (Directory l es)"
      using st os_Stat_cong [of "s\<lparr>NoRecurse := True\<rparr>" s rt] by simp
    have ne: "rt \<noteq> []" using st by (auto simp add: os_Stat_def)
    show "r0 = (if l then [rt] else [])"
      using assms a ne st' Walk_norecurse [OF st', of "[]"]
      by (simp add: ResolvePaths_def split: if_splits)
  qed
qed

theorem ResolvePaths_recursion_superset_witness:
  "fst (ResolvePaths [''/data''] ((start False dataTree 4096 True)\<lparr>NoRecurse := True\<rparr>))
     = Inr [''/data''] \<and>
   fst (ResolvePaths [''/data''] ((start False dataTree 4096 True)\<lparr>NoRecurse := False\<rparr>))
     = Inr [''/data'', ''/data/sub''] \<and>
   set [''/data''] \<subseteq> set [''/data'', ''/data/sub'']"
proof -
  let ?s = "start False dataTree 4096 True"
  have 1: "fst (ResolvePaths [''/data''] (?s\<lparr>NoRecurse := True\<rparr>)) = Inr [''/data'']"
    by code_simp
  have 2: "fst (ResolvePaths [''/data''] (?s\<lparr>NoRecurse := False\<rparr>))
             = Inr [''/data'', ''/data/sub'']"
    by code_simp
  from ResolvePaths_recursion_superset [OF 1] 1 2 show ?thesis by simp
qed

text \<open>
  Claim C6, as the specification has it, fails on a directory that cannot be listed:
  \<^verbatim>\<open>filepath.Walk\<close> hands \<^verbatim>\<open>walker\<close> the error of the listing, on which
  \<^verbatim>\<open>walker\<close> returns before it appends the path. With \<^verbatim>\<open>opts.NoRecurse\<close>
  set, the root \<^verbatim>\<open>/data/sub\<close>, a directory that holds the subdirectory
  \<^verbatim>\<open>deep\<close>, gives no path at all.
\<close>

theorem ResolvePaths_unlistable_root_counterexample:
  "os_Stat ''/data/sub'' (start False lockedTree 4096 True)
     = Inr (Directory False [(''deep'', Directory True [])]) \<and>
   os_Stat ''/data/sub/deep'' (start False lockedTree 4096 True) = Inr (Directory True []) \<and>
   fst (ResolvePaths [''/data/sub''] ((start False lockedTree 4096 True)\<lparr>NoRecurse := True\<rparr>))
     = Inr []"
  by code_simp

text \<open>
  Claim C7, as the program has it. When an argument that is not the empty string does
  not exist, \<^verbatim>\<open>ResolvePaths\<close> fails and returns no paths at all: it returns the
  error that \<^verbatim>\<open>os.Stat\<close> gives (no such file or directory, or not a directory) on
  the first argument of the list that is not empty and does not exist. Called on the
  missing argument alone, it returns the error of that argument.
\<close>

theorem ResolvePaths_missing_argument:
  assumes "p \<in> set args" and "p \<noteq> []" and "os_Stat p s = Inl e"
  shows "(\<exists>q en. List.find (\<lambda>x. x \<noteq> [] \<and> isl (os_Stat x s)) args = Some q
            \<and> (en = ENOENT \<or> en = ENOTDIR)
            \<and> os_Stat q s = Inl (PathError ''stat'' q en)
            \<and> fst (ResolvePaths args s) = Inl (PathError ''stat'' q en))
         \<and> fst (ResolvePaths [p] s) = Inl e"
proof
  have "\<exists>x. x \<in> set args \<and> (x \<noteq> [] \<and> isl (os_Stat x s))"
    using assms by auto
  then obtain q where q: "List.find (\<lambda>x. x \<noteq> [] \<and> isl (os_Stat x s)) args = Some q"
    by (cases "List.find (\<lambda>x. x \<noteq> [] \<and> isl (os_Stat x s)) args")
      (auto simp add: find_None_iff)
  then have "isl (os_Stat q s)" by (auto simp add: find_Some_iff)
  then obtain e' where e': "os_Stat q s = Inl e'" by (cases "os_Stat q s") auto
  from loop_fails_first [OF q e'] have r: "fst (ResolvePaths args s) = Inl e'"
    by (simp add: ResolvePaths_def Let_def)
  from os_Stat_error [OF e'] q e' r
  show "\<exists>q en. List.find (\<lambda>x. x \<noteq> [] \<and> isl (os_Stat x s)) args = Some q
          \<and> (en = ENOENT \<or> en = ENOTDIR)
          \<and> os_Stat q s = Inl (PathError ''stat'' q en)
          \<and> fst (ResolvePaths args s) = Inl (PathError ''stat'' q en)"
    by auto
next
  show "fst (ResolvePaths [p] s) = Inl e"
    using assms(2,3) by (simp add: ResolvePaths_def Let_def)
qed

theorem ResolvePaths_missing_argument_witness:
  "os_Stat ''/gone2'' (start False dataTree 4096 True)
     = Inl (PathError ''stat'' ''/gone2'' ENOENT) \<and>
   fst (ResolvePaths [''/data'', [], ''/gone1'', ''/gone2''] (start False dataTree 4096 True))
     = Inl (PathError ''stat'' ''/gone1'' ENOENT) \<and>
   fst (ResolvePaths [''/gone2''] (start False dataTree 4096 True))
     = Inl (PathError ''stat'' ''/gone2'' ENOENT)"
proof -
  let ?s = "start False dataTree 4096 True"
  let ?args = "[''/data'', [], ''/gone1'', ''/gone2'']"
  have 1: "''/gone2'' \<in> set ?args" by simp
  have 2: "''/gone2'' \<noteq> []" by simp
  have 3: "os_Stat ''/gone2'' ?s = Inl (PathError ''stat'' ''/gone2'' ENOENT)"
    by code_simp
  have 4: "List.find (\<lambda>x. x \<noteq> [] \<and> isl (os_Stat x ?s)) ?args = Some ''/gone1''"
    by code_simp
  from ResolvePaths_missing_argument [OF 1 2 3] 4
  obtain en where "fst (ResolvePaths ?args ?s) = Inl (PathError ''stat'' ''/gone1'' en)"
    "os_Stat ''/gone1'' ?s = Inl (PathError ''stat'' ''/gone1'' en)"
    by auto
  moreover have "os_Stat ''/gone1'' ?s = Inl (PathError ''stat'' ''/gone1'' ENOENT)"
    by code_simp
  ultimately have 5: "fst (ResolvePaths ?args ?s) = Inl (PathError ''stat'' ''/gone1'' ENOENT)"
    by simp
  from ResolvePaths_missing_argument [OF 1 2 3] have 6:
    "fst (ResolvePaths [''/gone2''] ?s) = Inl (PathError ''stat'' ''/gone2'' ENOENT)"
    by simp
  from 3 5 6 show ?thesis by simp
qed

text \<open>
  Claim C7, as the specification has it, fails at the empty string: it names nothing on
  the file system, and \<^verbatim>\<open>ResolvePaths\<close> skips it and returns no error.
\<close>

theorem ResolvePaths_empty_argument_counterexample:
  "os_Stat [] (start False dataTree 4096 True) = Inl (PathError ''stat'' [] ENOENT) \<and>
   fst (ResolvePaths [[]] (start False dataTree 4096 True)) = Inr []"
  by code_simp

text \<open>
  Claim C9. When every argument that is not the empty string exists,
  \<^verbatim>\<open>ResolvePaths\<close> returns the nil error, whatever \<^verbatim>\<open>filepath.Walk\<close> has
  returned on the way: that error goes to the variable \<^verbatim>\<open>err\<close> and is not
  returned.
\<close>

theorem ResolvePaths_discards_walk_error:
  assumes "\<forall>p\<in>set args. p \<noteq> [] \<longrightarrow> (\<exists>st. os_Stat p s = Inr st)"
  shows "\<exists>r. fst (ResolvePaths args s) = Inr r"
  using loop_exists [OF assms] by (simp add: ResolvePaths_def Let_def)

theorem ResolvePaths_discards_walk_error_witness:
  "os_Stat ''/data'' (start False lockedTree 4096 True)
     = Inr (Directory True [(''sub'', Directory False [(''deep'', Directory True [])])]) \<and>
   filepath_Walk ''/data'' (walker None) [] (start False lockedTree 4096 True)
     = (Some (PathError ''open'' ''/data/sub'' EACCES), [''/data'']) \<and>
   fst (ResolvePaths [''/data''] (start False lockedTree 4096 True)) = Inr [''/data''] \<and>
   err (snd (ResolvePaths [''/data''] (start False lockedTree 4096 True)))
     = Some (PathError ''open'' ''/data/sub'' EACCES)"
proof -
  let ?s = "start False lockedTree 4096 True"
  have 0: "os_Stat ''/data'' ?s
          = Inr (Directory True [(''sub'', Directory False [(''deep'', Directory True [])])])"
    by code_simp
  then have 1: "\<forall>p\<in>set [''/data'']. p \<noteq> [] \<longrightarrow> (\<exists>st. os_Stat p ?s = Inr st)"
    by simp
  have 2: "filepath_Walk ''/data'' (walker None) [] ?s
             = (Some (PathError ''open'' ''/data/sub'' EACCES), [''/data''])"
    by code_simp
  have 3: "fst (ResolvePaths [''/data''] ?s) = Inr [''/data'']"
    by code_simp
  have 4: "err (snd (ResolvePaths [''/data''] ?s))
             = Some (PathError ''open'' ''/data/sub'' EACCES)"
    by code_simp
  from ResolvePaths_discards_walk_error [OF 1] 0 2 3 4 show ?thesis by blast
qed


section \<open>\<^verbatim>\<open>init\<close>\<close>

lemma loop_state: "\<exists>e. snd (ResolvePaths_loop args rc a s) = s\<lparr>err := e\<rparr>"
proof (induction args arbitrary: a s)
  case Nil
  have "s = s\<lparr>err := err s\<rparr>" by simp
  then show ?case by (metis ResolvePaths_loop.simps(1) snd_conv)
next
  case (Cons path args)
  have step: "\<exists>e. snd (ResolvePaths_loop args rc b (s\<lparr>err := x\<rparr>)) = s\<lparr>err := e\<rparr>" for b x
    using Cons [of b "s\<lparr>err := x\<rparr>"] by simp
  show ?case
    using Cons [of a s] step
    by (auto split: sum.splits prod.splits)
qed

lemma ResolvePaths_state: "\<exists>e. snd (ResolvePaths args s) = s\<lparr>err := e\<rparr>"
  by (simp add: ResolvePaths_def Let_def loop_state)

lemma IsDir_empty [simp]: "\<not> IsDir [] s"
  by (simp add: IsDir_def os_Stat_def)

lemma Println_pair: "Println [a, b] = a @ '' '' @ b"
  by (simp add: Println_def)

text \<open>
  In the sibling copies the diagnostic is printed exactly when the second argument is
  missing or is not an existing directory, and \<^verbatim>\<open>copyDir\<close> is set exactly when it
  is not printed.
\<close>

lemma init_sibling_diagnostic:
  assumes "init_sibling Args s = Returns s'" and "copyDir s = []"
  shows "(if 3 \<le> length Args \<and> IsDir (Args ! 2) s
          then stderr s' = stderr s \<and> copyDir s' = Args ! 2
          else stderr s' = stderr s @ [''copy target dir is not exists ''] \<and> copyDir s' = [])"
proof -
  obtain e where st: "snd (ResolvePaths [Args ! 1] s) = s\<lparr>err := e\<rparr>"
    using ResolvePaths_state by blast
  obtain r where rp: "ResolvePaths [Args ! 1] s = (r, s\<lparr>err := e\<rparr>)"
    using st by (cases "ResolvePaths [Args ! 1] s") simp
  show ?thesis
    using assms rp
    by (auto simp add: init_sibling_def Let_def toStderr_def Println_pair IsDir_update
        split: if_splits)
qed

text \<open>
  Claim C8 fails on \<^verbatim>\<open>watch.go\<close>: whenever its \<^verbatim>\<open>init\<close> gets as far as the
  test, it prints the diagnostic, also when the second argument is an existing directory
  and has been taken as the mirror directory.
\<close>

theorem init_always_prints_diagnostic:
  assumes "init Args s = Returns s'"
  shows "stderr s' = stderr s @ [''copy target dir is not exists '' @ copyDir s'] \<and>
         (3 \<le> length Args \<and> IsDir (Args ! 2) s \<longrightarrow> copyDir s' = Args ! 2)"
proof -
  obtain e where st: "snd (ResolvePaths [Args ! 1] s) = s\<lparr>err := e\<rparr>"
    using ResolvePaths_state by blast
  obtain r where rp: "ResolvePaths [Args ! 1] s = (r, s\<lparr>err := e\<rparr>)"
    using st by (cases "ResolvePaths [Args ! 1] s") simp
  show ?thesis
    using assms rp
    by (auto simp add: init_def Let_def toStderr_def Println_pair IsDir_update
        split: if_splits)
qed

theorem init_always_prints_diagnostic_witness:
  "IsDir ''/backup'' (start False dataTree 4096 True) \<and>
   (\<exists>s'. init [''watch'', ''/data'', ''/backup''] (start False dataTree 4096 True) = Returns s'
      \<and> copyDir s' = ''/backup''
      \<and> stderr s' = [''copy target dir is not exists /backup''])"
proof -
  let ?s = "start False dataTree 4096 True"
  let ?A = "[''watch'', ''/data'', ''/backup'']"
  have 1: "IsDir ''/backup'' ?s" by code_simp
  have "(case init ?A ?s of Returns s' \<Rightarrow> True | _ \<Rightarrow> False)" by code_simp
  then obtain s' where 2: "init ?A ?s = Returns s'"
    by (cases "init ?A ?s") simp_all
  have 3: "stderr ?s = []" by (simp add: start_def)
  from init_always_prints_diagnostic [OF 2] 1 2 3 show ?thesis by simp
qed


section \<open>Files in the tree\<close>

text \<open>
  What \<^const>\<open>modify\<close> leaves at the place it changes, and that it leaves every other
  regular file alone when the change is one that a directory refuses.
\<close>

lemma map_of_insort_key:
  "map_of (insort_key fst (k, v) es) = (map_of es)(k \<mapsto> v)" if "map_of es k = None"
  using that
proof (induction es)
  case Nil
  then show ?case by simp
next
  case (Cons x es)
  obtain k' v' where x: "x = (k', v')" by (cases x)
  with Cons show ?case
    by (auto simp add: fun_eq_iff split: if_splits)
qed

lemma modify_lookup:
  "modify f cs t = Inr t' \<Longrightarrow> \<exists>n. lookup cs t' = Inr n \<and> f (asOption (lookup cs t)) = Inr n"
proof (induction f cs t arbitrary: t' rule: modify.induct)
  case (1 f t)
  then show ?case by (simp add: asOption_def)
next
  case (2 f c cs b)
  then show ?case by simp
next
  case (3 f c cs l es)
  show ?case
  proof (cases "map_of es c")
    case None
    with 3(2) show ?thesis
      by (auto simp add: asOption_def map_of_insort_key split: if_splits sum.splits)
  next
    case (Some t0)
    with 3(2) obtain n where n: "modify f cs t0 = Inr n" "t' = Directory l (AList.update c n es)"
      by (auto split: sum.splits)
    from 3(1) [OF Some n(1)] Some n(2) show ?thesis
      by (simp add: update_conv')
  qed
qed

lemma modify_frame:
  assumes "modify f cs t = Inr t'" and "lookup cs' t = Inr (RegFile b)" and "cs' \<noteq> cs"
    and "\<forall>l es. f (Some (Directory l es)) = Inl EISDIR"
  shows "lookup cs' t' = Inr (RegFile b)"
  using assms
proof (induction f cs t arbitrary: t' cs' rule: modify.induct)
  case (1 f t)
  then show ?case
    by (cases t; cases cs') auto
next
  case (2 f c cs b)
  then show ?case by simp
next
  case (3 f c cs l es)
  show ?case
  proof (cases cs')
    case Nil
    with 3(3) show ?thesis by simp
  next
    case (Cons c' ds)
    show ?thesis
    proof (cases "map_of es c")
      case None
      with 3(2) obtain n where n: "cs = []" "f None = Inr n"
        "t' = Directory l (insort_key fst (c, n) es)"
        by (auto split: if_splits sum.splits)
      with None Cons 3(3) show ?thesis
        by (auto simp add: map_of_insort_key split: option.splits)
    next
      case (Some t0)
      with 3(2) obtain n where n: "modify f cs t0 = Inr n"
        "t' = Directory l (AList.update c n es)"
        by (auto split: sum.splits)
      show ?thesis
      proof (cases "c' = c")
        case True
        with Cons 3(3,4) Some have "lookup ds t0 = Inr (RegFile b)" "ds \<noteq> cs" by auto
        from 3(1) [OF Some n(1) this 3(5)] True Cons n(2) show ?thesis
          by (simp add: update_conv')
      next
        case False
        with Cons 3(3) n(2) show ?thesis
          by (simp add: update_conv')
      qed
    qed
  qed
qed



text \<open>
  Such a change keeps every directory a directory, so every path that named a place
  before names the same place after.
\<close>

lemma directory_kept:
  assumes "modify f cs t = Inr t'" and "lookup acc t = Inr (Directory l es)"
    and "\<forall>l es. f (Some (Directory l es)) = Inl EISDIR"
  shows "\<exists>es'. lookup acc t' = Inr (Directory l es')"
  using assms
proof (induction f cs t arbitrary: t' acc l es rule: modify.induct)
  case (1 f t)
  then show ?case
    by (cases t; cases acc) auto
next
  case (2 f c cs b)
  then show ?case by simp
next
  case (3 f c cs l0 es0)
  show ?case
  proof (cases acc)
    case Nil
    with 3(2,3) show ?thesis
      by (auto split: option.splits if_splits sum.splits)
  next
    case (Cons c' ds)
    show ?thesis
    proof (cases "map_of es0 c")
      case None
      with 3(2) obtain n where n: "cs = []" "f None = Inr n"
        "t' = Directory l0 (insort_key fst (c, n) es0)"
        by (auto split: if_splits sum.splits)
      with None Cons 3(3) show ?thesis
        by (auto simp add: map_of_insort_key split: option.splits)
    next
      case (Some t0)
      with 3(2) obtain n where n: "modify f cs t0 = Inr n"
        "t' = Directory l0 (AList.update c n es0)"
        by (auto split: sum.splits)
      show ?thesis
      proof (cases "c' = c")
        case True
        with Cons 3(3) Some have "lookup ds t0 = Inr (Directory l es)" by auto
        from 3(1) [OF Some n(1) this 3(4)] True Cons n(2) show ?thesis
          by (simp add: update_conv')
      next
        case False
        with Cons 3(3) n(2) show ?thesis
          by (simp add: update_conv')
      qed
    qed
  qed
qed

lemma canon_kept:
  assumes "canon t acc cs = Inr r" and "modify f pl t = Inr t'"
    and "\<forall>l es. f (Some (Directory l es)) = Inl EISDIR"
  shows "canon t' acc cs = Inr r"
  using assms(1)
proof (induction cs arbitrary: acc)
  case Nil
  then show ?case by simp
next
  case (Cons c cs)
  from Cons.prems obtain l es where d: "lookup acc t = Inr (Directory l es)"
    and step: "canon t (if c = ''..'' then butlast acc else acc @ [c]) cs = Inr r"
    by (auto split: sum.splits node.splits)
  from directory_kept [OF assms(2) d assms(3)] obtain es'
    where "lookup acc t' = Inr (Directory l es')" by blast
  with Cons.IH [OF step] show ?case by simp
qed

section \<open>The delayed copy\<close>

lemma bufio_Copy_nil: "bufio_Copy d None s = ((0, Some ErrInvalid), s)"
  by (simp add: bufio_Copy_def io_Copy_def readAll_def)

lemma os_OpenFile_stderr: "os_OpenFile name tr s = Inr (f, s') \<Longrightarrow> stderr s' = stderr s"
  by (auto simp add: os_OpenFile_def split: if_splits sum.splits)

lemma Println_single: "Println [a] = a"
  by (simp add: Println_def)

text \<open>
  \<^verbatim>\<open>Copy\<close> of the sibling copies, when source and destination are two places in
  the tree: if it returns the nil error, the destination holds the bytes of the source,
  the source is unchanged, and the device had room for them; so it does not return the
  nil error when the device cannot take all the bytes. (When both paths name one file,
  as with the mirror directory \<^verbatim>\<open>/\<close>, creating the destination empties the
  source.)
\<close>

lemma os_Stat_lookup:
  "os_Stat p s = Inr n \<Longrightarrow>
   p \<noteq> [] \<and> (\<exists>pl. place (windows s) (root s) p = Inr pl \<and> lookup pl (root s) = Inr n)
   \<and> (needsDir (windows s) p \<longrightarrow> IsDir_info n)"
  by (auto simp add: os_Stat_def split: if_splits sum.splits)

lemma Copy_copies:
  assumes c: "Copy src dst s = (None, s')"
    and src: "os_Stat src s = Inr (RegFile b)"
    and ne: "place (windows s) (root s) src \<noteq> place (windows s) (root s) dst"
  shows "os_Stat dst s' = Inr (RegFile b) \<and> os_Stat src s' = Inr (RegFile b)
         \<and> length b \<le> space s"
proof -
  from os_Stat_lookup [OF src] obtain cs where sne: "src \<noteq> []"
    and pcs: "place (windows s) (root s) src = Inr cs"
    and ls: "lookup cs (root s) = Inr (RegFile b)"
    and snd: "\<not> needsDir (windows s) src"
    by auto
  have op: "os_Open src s = Inr (src, cs)" using src pcs by (simp add: os_Open_def)
  from c op obtain fout s1 where cr: "os_Create dst s = Inr (fout, s1)"
    by (auto simp add: Copy_def split: sum.splits)
  then obtain cd t1 where t1: "dst \<noteq> []" "modify (openForWrite True) cd (root s) = Inr t1"
    "fout = (dst, cd)" "s1 = s\<lparr>root := t1\<rparr>" "\<not> needsDir (windows s) dst"
    and pcd: "place (windows s) (root s) dst = Inr cd"
    by (auto simp add: os_Create_def os_OpenFile_def split: if_splits sum.splits)
  from ne pcs pcd have ne': "cs \<noteq> cd" by simp
  have dirT: "\<forall>l es. openForWrite True (Some (Directory l es)) = Inl EISDIR" by simp
  from modify_frame [OF t1(2) ls ne' dirT] have ls1: "lookup cs t1 = Inr (RegFile b)" .
  from modify_lookup [OF t1(2)] obtain n where n: "lookup cd t1 = Inr n"
    "openForWrite True (asOption (lookup cd (root s))) = Inr n" by blast
  have n0: "n = RegFile []"
  proof (cases "asOption (lookup cd (root s))")
    case None
    with n(2) show ?thesis by simp
  next
    case (Some m)
    with n(2) show ?thesis by (cases m) auto
  qed
  have rd: "readAll (Some (src, cs)) s1 = Inr b"
    using ls1 t1(4) by (simp add: readAll_def)
  from c op cr rd obtain k where wr: "writeFile (dst, cd) b s1 = ((k, None), s')"
    using t1(3) by (auto simp add: Copy_def io_Copy_def split: prod.splits option.splits)
  then obtain t2 where t2: "modify (overwrite (take (space s) b)) cd t1 = Inr t2"
    "length b \<le> space s" "s' = s1\<lparr>root := t2\<rparr>"
    using t1(4) by (auto simp add: writeFile_def Let_def split: sum.splits if_splits)
  have dirO: "\<forall>l es. overwrite (take (space s) b) (Some (Directory l es)) = Inl EISDIR" by simp
  from modify_frame [OF t2(1) ls1 ne' dirO] have ls2: "lookup cs t2 = Inr (RegFile b)" .
  from modify_lookup [OF t2(1)] n(1) n0 t2(2)
  have ld2: "lookup cd t2 = Inr (RegFile b)" by (auto simp add: asOption_def)
  have w: "windows s' = windows s" "root s' = t2" using t1(4) t2(3) by simp_all
  have "place (windows s) t1 src = Inr cs" "place (windows s) t1 dst = Inr cd"
    using pcs pcd canon_kept [OF _ t1(2) dirT] by (simp_all add: place_def)
  then have "place (windows s) t2 src = Inr cs" "place (windows s) t2 dst = Inr cd"
    using canon_kept [OF _ t2(1) dirO] by (simp_all add: place_def)
  then show ?thesis
    using ls2 ld2 sne snd t1(1,5) t2(2) w by (simp add: os_Stat_def)
qed

lemma Copy_error_when_full:
  assumes "Copy src dst s = (r, s')" and "os_Stat src s = Inr (RegFile b)"
    and "place (windows s) (root s) src \<noteq> place (windows s) (root s) dst"
    and "space s < length b"
  shows "r \<noteq> None"
  using Copy_copies [of src dst s s' b] assms by (cases r) auto

text \<open>
  Claim C2 fails on the program. \<^verbatim>\<open>IsFile\<close> is the negation of \<^verbatim>\<open>IsDir\<close>, so
  it holds of a path that does not exist, and the function run by the timer goes on to
  the copy when the source has been deleted. In the sibling copies \<^verbatim>\<open>Copy\<close> fails
  to open the source and the error is printed on standard error (the file tree stays as
  it is); in \<^verbatim>\<open>watch.go\<close> an error is printed on standard error as well.
\<close>

theorem timer_on_deleted_source:
  assumes "os_Stat filePath s = Inl e"
  shows "IsFile filePath s \<and>
         (\<exists>en. e = PathError ''stat'' filePath en \<and>
            afterFunc_syncFile filePath np s = toStderr (Error (PathError ''open'' filePath en)) s) \<and>
         (\<exists>x. stderr (afterFunc_sync filePath np s) = stderr s @ [x])"
proof (intro conjI)
  show f: "IsFile filePath s"
    using assms by (simp add: IsFile_def IsDir_def)
  from os_Stat_error [OF assms] obtain en where en: "e = PathError ''stat'' filePath en"
    by blast
  then have op: "os_Open filePath s = Inl (PathError ''open'' filePath en)"
    using assms by (simp add: os_Open_def)
  from f op en
  show "\<exists>en. e = PathError ''stat'' filePath en \<and>
          afterFunc_syncFile filePath np s = toStderr (Error (PathError ''open'' filePath en)) s"
    by (simp add: afterFunc_syncFile_def Copy_def Println_single)
  let ?s1 = "toStdout (''open file error = '' @ Error (PathError ''open'' filePath en)) s"
  have s1: "stderr ?s1 = stderr s" by (simp add: toStdout_def)
  show "\<exists>x. stderr (afterFunc_sync filePath np s) = stderr s @ [x]"
  proof (cases "os_OpenFile np False ?s1")
    case (Inl e1)
    with f op show ?thesis
      by (simp add: afterFunc_sync_def copyFile_def toStderr_def toStdout_def)
  next
    case (Inr r)
    then obtain d s2 where r: "os_OpenFile np False ?s1 = Inr (d, s2)" by (cases r) simp
    from os_OpenFile_stderr [OF r] s1 have "stderr s2 = stderr s" by simp
    with f op r show ?thesis
      by (simp add: afterFunc_sync_def copyFile_def bufio_Copy_nil toStderr_def)
  qed
qed

theorem timer_on_deleted_source_witness:
  "os_Stat ''/data/a.txt'' (mirroring ''/backup'' (start False deletedTree 4096 True))
     = Inl (PathError ''stat'' ''/data/a.txt'' ENOENT) \<and>
   os_Stat ''/backup/data/a.txt'' (mirroring ''/backup'' (start False deletedTree 4096 True))
     = Inl (PathError ''stat'' ''/backup/data/a.txt'' ENOENT) \<and>
   stderr (afterFunc_syncFile ''/data/a.txt'' ''/backup/data/a.txt''
             (mirroring ''/backup'' (start False deletedTree 4096 True)))
     = [''open /data/a.txt: no such file or directory''] \<and>
   stderr (afterFunc_sync ''/data/a.txt'' ''/backup/data/a.txt''
             (mirroring ''/backup'' (start False deletedTree 4096 True)))
     = [''invalid argument''] \<and>
   os_Stat ''/backup/data/a.txt''
      (afterFunc_sync ''/data/a.txt'' ''/backup/data/a.txt''
         (mirroring ''/backup'' (start False deletedTree 4096 True)))
     = Inr (RegFile [])"
proof -
  let ?s = "mirroring ''/backup'' (start False deletedTree 4096 True)"
  have 1: "os_Stat ''/data/a.txt'' ?s = Inl (PathError ''stat'' ''/data/a.txt'' ENOENT)"
    by code_simp
  have 2: "os_Stat ''/backup/data/a.txt'' ?s
             = Inl (PathError ''stat'' ''/backup/data/a.txt'' ENOENT)"
    by code_simp
  have 3: "stderr ?s = []" by (simp add: mirroring_def start_def)
  have 4: "stderr (afterFunc_sync ''/data/a.txt'' ''/backup/data/a.txt'' ?s)
             = [''invalid argument'']"
    by code_simp
  have 5: "os_Stat ''/backup/data/a.txt''
             (afterFunc_sync ''/data/a.txt'' ''/backup/data/a.txt'' ?s) = Inr (RegFile [])"
    by code_simp
  from timer_on_deleted_source [OF 1, of "''/backup/data/a.txt''"]
  have "afterFunc_syncFile ''/data/a.txt'' ''/backup/data/a.txt'' ?s
          = toStderr (Error (PathError ''open'' ''/data/a.txt'' ENOENT)) ?s"
    by simp
  then have "stderr (afterFunc_syncFile ''/data/a.txt'' ''/backup/data/a.txt'' ?s)
               = [''open /data/a.txt: no such file or directory'']"
    using 3 by (simp add: toStderr_def)
  with 1 2 4 5 show ?thesis by simp
qed

text \<open>
  Claim C1 fails on \<^verbatim>\<open>watch.go\<close>. With \<^verbatim>\<open>/data/a.txt\<close> mirrored once as
  \<^verbatim>\<open>hello\<close> and then rewritten as \<^verbatim>\<open>hi\<close>, \<^verbatim>\<open>sync\<close> schedules the copy and
  the timer reports success, and the destination does not hold \<^verbatim>\<open>hi\<close>:
  \<^verbatim>\<open>copyFile\<close> opens it without \<^verbatim>\<open>O_TRUNC\<close>, so it holds \<^verbatim>\<open>hillo\<close> when the
  copy goes to the file itself, and it still holds \<^verbatim>\<open>hello\<close> when the copy stays
  in the buffer of the writer that is never flushed. In that second case a first copy of
  \<^verbatim>\<open>hello\<close> leaves an empty destination and reports success too. The timer of the
  sibling copies leaves \<^verbatim>\<open>hi\<close> in the destination.
\<close>

theorem copyFile_leaves_stale_destination:
  "(case sync ''/data/a.txt'' (mirroring ''/backup'' (start False rewrittenTree 4096 True)) of
      Inl x \<Rightarrow> False
    | Inr (e, s1) \<Rightarrow>
        e = None \<and> timers s1 = [(10, ''/data/a.txt'', ''/backup/data/a.txt'')] \<and>
        os_Stat ''/data/a.txt'' s1 = Inr (RegFile ''hi'') \<and>
        os_Stat ''/backup/data/a.txt'' (fire_sync s1) = Inr (RegFile ''hillo'') \<and>
        stderr (fire_sync s1) = [] \<and>
        last (stdout (fire_sync s1)) = ''file copy success /backup/data/a.txt'' \<and>
        os_Stat ''/backup/data/a.txt'' (fire_syncFile s1) = Inr (RegFile ''hi'')) \<and>
   (case sync ''/data/a.txt'' (mirroring ''/backup'' (start False rewrittenTree 4096 False)) of
      Inl x \<Rightarrow> False
    | Inr (e, s1) \<Rightarrow>
        e = None \<and>
        os_Stat ''/backup/data/a.txt'' (fire_sync s1) = Inr (RegFile ''hello'') \<and>
        stderr (fire_sync s1) = [] \<and>
        last (stdout (fire_sync s1)) = ''file copy success /backup/data/a.txt'') \<and>
   (case sync ''/data/a.txt'' (mirroring ''/backup'' (start False dataTree 4096 False)) of
      Inl x \<Rightarrow> False
    | Inr (e, s1) \<Rightarrow>
        e = None \<and>
        os_Stat ''/data/a.txt'' s1 = Inr (RegFile ''hello'') \<and>
        os_Stat ''/backup/data/a.txt'' (fire_sync s1) = Inr (RegFile []) \<and>
        stderr (fire_sync s1) = [] \<and>
        last (stdout (fire_sync s1)) = ''file copy success /backup/data/a.txt'')"
  by code_simp

end
